theory Spec2Isabelle
  imports Complex_Main
begin

section \<open>Data model\<close>

text \<open>
  The cooperative's Django models, one record per model and one list per table.
  Money is Python's \<open>Decimal\<close>; its sums, differences and products are exact, so an
  amount is a rational number.  A \<open>DecimalField\<close> of two decimal places holds its
  value rounded to cents when the row is written (\<open>quantize\<close> below).  The amounts
  that are read from a row or a form have two places, and so have their sums and
  differences; the one amount of more places that is written is the interest computed at
  a disbursement, and there the rounding is written out (\<open>stored_loan\<close>).  Every
  amount is taken to fit the digits of its column.  Fields that no operation below reads
  (names, addresses, reference numbers, notes and the formatted descriptions of savings
  transactions and repayments) are left out.  Of the dates, the
  due date of a repayment is kept, a column that must not be NULL: it holds the day of
  the request that set it, or nothing when no value was assigned.  A member is
  identified by a number, a savings account by its member (the relation is one-to-one),
  a loan by its position in the loan table (its primary key); a new row goes to the end
  of its table and no row is deleted.
\<close>

type_synonym money = rat

datatype loan_status =
  Pending | Under_review | Approved | Rejected | Disbursed | Active | Completed
  | Defaulted | Written_off

record loan =
  loan_member :: nat
  loan_id :: string
  requested_amount :: money
  approved_amount :: "money option"
  status :: loan_status
  principal_balance :: money
  interest_balance :: money
  total_balance :: money
  disbursed_by :: "nat option"
  disbursement_date :: "nat option"

datatype row_status = Row_pending | Row_completed | Row_failed | Row_cancelled

datatype date_value = Today

record loan_repayment =
  rep_loan :: nat
  amount :: money
  principal_amount :: money
  interest_amount :: money
  balance_before :: money
  balance_after :: money
  due_date :: "date_value option"
  rep_status :: row_status
  rep_processed_by :: "nat option"

record savings_account =
  sa_member :: nat
  balance :: money
  collateral_amount :: money
  available_balance :: money
  has_active_loan :: bool

datatype savings_type =
  Compulsory | Voluntary | Withdrawal | Interest | Penalty | Loan_repayment | Collateral

record savings_transaction =
  st_account :: nat
  transaction_type :: savings_type
  st_amount :: money
  st_balance_before :: money
  st_balance_after :: money
  st_status :: row_status
  st_processed_by :: "nat option"
  related_loan :: "nat option"
  is_loan_repayment :: bool
  repayment_principal :: money
  repayment_interest :: money

datatype membership = Member_active | Member_inactive | Member_suspended | Member_terminated

record member =
  member_pk :: nat
  membership_status :: membership
  monthly_savings :: money
  registration_fee_amount :: money
  is_superuser :: bool
  is_staff :: bool

datatype ledger_type = Income | Expense | Transfer

datatype ledger_status = Draft | Ledger_pending | Ledger_completed | Ledger_cancelled

record ledger_transaction =
  tx_type :: ledger_type
  description :: string
  tx_amount :: money
  tx_status :: ledger_status
  created_by :: "nat option"

datatype entry_type = Debit | Credit

record transaction_entry =
  entry_transaction :: nat
  entry_account :: string
  entry_kind :: entry_type
  entry_amount :: money

record account_category =
  cat_code :: string
  cat_name :: string
  category_type :: string

record account =
  acc_code :: string
  acc_name :: string
  acc_category :: string
  acc_balance :: money

record db =
  members :: "member list"
  savings_accounts :: "savings_account list"
  savings_transactions :: "savings_transaction list"
  loans :: "loan list"
  repayments :: "loan_repayment list"
  transactions :: "ledger_transaction list"
  transaction_entries :: "transaction_entry list"
  account_categories :: "account_category list"
  accounts :: "account list"

text \<open>
  What a column of two decimal places holds for a value: the value rounded to cents, a
  half to the even cent (the rounding of \<open>Decimal.quantize\<close> in Django's
  \<open>format_number\<close>).
\<close>

definition round_half_even :: "rat \<Rightarrow> int" where
  "round_half_even x =
     (let n = \<lfloor>x\<rfloor>; r = x - of_int n
      in if r < 1 / 2 then n
         else if r > 1 / 2 then n + 1
         else if even n then n else n + 1)"

definition quantize :: "money \<Rightarrow> money" where
  "quantize x = of_int (round_half_even (x * 100)) / 100"

text \<open>The row that \<open>Loan.save()\<close> writes for a loan object.\<close>

definition stored_loan :: "loan \<Rightarrow> loan" where
  "stored_loan l =
     l\<lparr>principal_balance := quantize (principal_balance l),
       interest_balance := quantize (interest_balance l),
       total_balance := quantize (total_balance l)\<rparr>"



section \<open>Savings accounts (savings/models.py)\<close>

text \<open>\<open>SavingsAccount.objects.get(member=member)\<close>; \<open>None\<close> is \<open>DoesNotExist\<close>.\<close>

definition get_savings_account :: "db \<Rightarrow> nat \<Rightarrow> savings_account option" where
  "get_savings_account d m = find (\<lambda>a. sa_member a = m) (savings_accounts d)"

text \<open>\<open>savings_account.save()\<close>: the row of that member is overwritten, or inserted.\<close>

fun put_account :: "savings_account \<Rightarrow> savings_account list \<Rightarrow> savings_account list" where
  "put_account a [] = [a]"
| "put_account a (b # bs) =
     (if sa_member b = sa_member a then a # bs else b # put_account a bs)"

definition save_account :: "savings_account \<Rightarrow> db \<Rightarrow> db" where
  "save_account a d = d\<lparr>savings_accounts := put_account a (savings_accounts d)\<rparr>"

definition update_available_balance :: "savings_account \<Rightarrow> savings_account" where
  "update_available_balance a = a\<lparr>available_balance := balance a - collateral_amount a\<rparr>"

definition set_collateral :: "savings_account \<Rightarrow> money \<Rightarrow> savings_account" where
  "set_collateral a amt =
     update_available_balance (a\<lparr>collateral_amount := amt, has_active_loan := True\<rparr>)"

definition clear_collateral :: "savings_account \<Rightarrow> savings_account" where
  "clear_collateral a =
     update_available_balance (a\<lparr>collateral_amount := 0, has_active_loan := False\<rparr>)"

definition get_loan_repayment_amount :: "savings_account \<Rightarrow> money" where
  "get_loan_repayment_amount a =
     (if \<not> has_active_loan a then 0 else max 0 (balance a - collateral_amount a))"

text \<open>
  \<open>get_total_savings\<close>: the sum of the amounts of the account's compulsory and voluntary
  transactions (an empty sum is \<open>None\<close> in SQL and is replaced by zero).
\<close>

definition get_total_savings :: "db \<Rightarrow> nat \<Rightarrow> money" where
  "get_total_savings d m =
     sum_list (map st_amount
       (filter (\<lambda>t. st_account t = m \<and> transaction_type t \<in> {Compulsory, Voluntary})
         (savings_transactions d)))"

section \<open>Loan eligibility (members/models.py)\<close>

definition maximum_loan_amount :: "db \<Rightarrow> nat \<Rightarrow> money" where
  "maximum_loan_amount d m =
     (case get_savings_account d m of
        Some a \<Rightarrow> get_total_savings d m * 2
      | None \<Rightarrow> 0)"

definition outstanding_balance :: "loan \<Rightarrow> money" where
  "outstanding_balance l = (if status l \<notin> {Active, Approved} then 0 else total_balance l)"

definition open_loans :: "db \<Rightarrow> nat \<Rightarrow> loan list" where
  "open_loans d m =
     filter (\<lambda>l. loan_member l = m \<and> status l \<in> {Active, Approved}) (loans d)"

definition get_outstanding_loan_amount :: "db \<Rightarrow> nat \<Rightarrow> money" where
  "get_outstanding_loan_amount d m = sum_list (map outstanding_balance (open_loans d m))"

definition can_repay_within_22_months :: "member \<Rightarrow> money \<Rightarrow> bool" where
  "can_repay_within_22_months mem loan_amount =
     (if monthly_savings mem \<le> 0 then False
      else
        let total_to_repay = loan_amount * (110 / 100);
            required_monthly_payment = total_to_repay / 22
        in monthly_savings mem \<ge> required_monthly_payment)"

text \<open>\<open>loan.approved_amount or loan.requested_amount\<close>: \<open>None\<close> and zero are both falsy.\<close>

definition amount_borrowed :: "loan \<Rightarrow> money" where
  "amount_borrowed l =
     (case approved_amount l of
        None \<Rightarrow> requested_amount l
      | Some a \<Rightarrow> if a = 0 then requested_amount l else a)"

text \<open>
  The reason that accompanies the decision.  Each constructor stands for one of the
  method's message strings and carries the figure the string is formatted with.
\<close>

datatype eligibility_message =
  Total_would_exceed_maximum money
  | Cannot_repay_within_22_months money
  | Must_pay_at_least_85_percent money
  | Loan_application_approved

definition can_apply_for_loan :: "db \<Rightarrow> member \<Rightarrow> money \<Rightarrow> bool \<times> eligibility_message" where
  "can_apply_for_loan d mem requested =
     (let outstanding_amount = get_outstanding_loan_amount d (member_pk mem);
          total_after_loan = outstanding_amount + requested
      in
        if total_after_loan > maximum_loan_amount d (member_pk mem)
        then (False, Total_would_exceed_maximum (maximum_loan_amount d (member_pk mem)))
        else if \<not> can_repay_within_22_months mem requested
        then (False, Cannot_repay_within_22_months (monthly_savings mem))
        else if outstanding_amount > 0
        then
          (let total_borrowed = sum_list (map amount_borrowed (open_loans d (member_pk mem)));
               total_paid = total_borrowed - outstanding_amount;
               paid_percentage =
                 (if total_borrowed > 0 then (total_paid / total_borrowed) * 100 else 0)
           in
             if paid_percentage < 85
             then (False, Must_pay_at_least_85_percent paid_percentage)
             else (True, Loan_application_approved))
        else (True, Loan_application_approved))"

text \<open>
  The three rules as the specification words them, over the figures they mention: the
  member's total deposits, outstanding loan amount, monthly savings and total borrowed.
  \<open>rejecting_rule\<close> is the number of the first rule that rejects, 0 when none does.
\<close>

definition total_deposits :: "db \<Rightarrow> nat \<Rightarrow> money" where
  "total_deposits d m =
     (case get_savings_account d m of Some a \<Rightarrow> get_total_savings d m | None \<Rightarrow> 0)"

definition total_borrowed_of :: "db \<Rightarrow> nat \<Rightarrow> money" where
  "total_borrowed_of d m = sum_list (map amount_borrowed (open_loans d m))"

definition rejecting_rule :: "money \<Rightarrow> money \<Rightarrow> money \<Rightarrow> money \<Rightarrow> money \<Rightarrow> nat" where
  "rejecting_rule deposits outstanding monthly borrowed requested =
     (if outstanding + requested > 2 * deposits then 1
      else if \<not> (monthly \<ge> (requested * (110 / 100)) / 22) then 2
      else if outstanding > 0 \<and> \<not> (borrowed - outstanding \<ge> (85 / 100) * borrowed) then 3
      else 0)"

text \<open>The rule a message of \<open>can_apply_for_loan\<close> belongs to; 0 is the approval.\<close>

fun message_rule :: "eligibility_message \<Rightarrow> nat" where
  "message_rule (Total_would_exceed_maximum x) = 1"
| "message_rule (Cannot_repay_within_22_months x) = 2"
| "message_rule (Must_pay_at_least_85_percent x) = 3"
| "message_rule Loan_application_approved = 0"

section \<open>Cooperative balance (loans/views.py, dashboard/views.py, transactions/views.py)\<close>

text \<open>
  \<open>description__icontains\<close>: a case-insensitive substring test (on ASCII letters).
\<close>

definition lower_char :: "char \<Rightarrow> char" where
  "lower_char c =
     (case map_of (zip ''ABCDEFGHIJKLMNOPQRSTUVWXYZ'' ''abcdefghijklmnopqrstuvwxyz'') c of
        Some l \<Rightarrow> l
      | None \<Rightarrow> c)"

fun starts_with :: "string \<Rightarrow> string \<Rightarrow> bool" where
  "starts_with [] cs = True"
| "starts_with (p # ps) [] = False"
| "starts_with (p # ps) (c # cs) = (p = c \<and> starts_with ps cs)"

fun contains :: "string \<Rightarrow> string \<Rightarrow> bool" where
  "contains p [] = (p = [])"
| "contains p (c # cs) = (starts_with p (c # cs) \<or> contains p cs)"

definition icontains :: "string \<Rightarrow> string \<Rightarrow> bool" where
  "icontains text needle = contains (map lower_char needle) (map lower_char text)"

text \<open>The aggregates the three call sites share.  \<open>Sum\<close> skips a NULL amount.\<close>

definition total_member_savings :: "db \<Rightarrow> money" where
  "total_member_savings d = sum_list (map balance (savings_accounts d))"

definition regular_members :: "db \<Rightarrow> member list" where
  "regular_members d = filter (\<lambda>m. \<not> is_superuser m \<and> \<not> is_staff m) (members d)"

definition registration_fees :: "db \<Rightarrow> money" where
  "registration_fees d = sum_list (map registration_fee_amount (regular_members d))"

definition loan_interest_earned :: "db \<Rightarrow> money" where
  "loan_interest_earned d = sum_list (map interest_amount (repayments d))"

definition total_expenses :: "db \<Rightarrow> money" where
  "total_expenses d =
     sum_list (map tx_amount
       (filter (\<lambda>t. tx_type t = Expense \<and> tx_status t = Ledger_completed) (transactions d)))"

definition total_disbursed_loans :: "db \<Rightarrow> money" where
  "total_disbursed_loans d =
     sum_list (map (\<lambda>l. case approved_amount l of None \<Rightarrow> 0 | Some a \<Rightarrow> a)
       (filter (\<lambda>l. status l = Active) (loans d)))"

definition total_outstanding_loans :: "db \<Rightarrow> money" where
  "total_outstanding_loans d =
     sum_list (map principal_balance (filter (\<lambda>l. status l = Active) (loans d)))"

definition savings_interest_income :: "db \<Rightarrow> money" where
  "savings_interest_income d =
     sum_list (map st_amount
       (filter (\<lambda>t. transaction_type t = Interest \<and> st_status t = Row_completed)
         (savings_transactions d)))"

text \<open>The pre-check inside \<open>disburse_loan\<close> (loans/views.py, lines 513 to 555).\<close>

definition disburse_available_balance :: "db \<Rightarrow> money" where
  "disburse_available_balance d =
     (let other_income =
            sum_list (map tx_amount
              (filter (\<lambda>t. tx_type t = Income \<and> \<not> icontains (description t) ''registration'')
                (transactions d)))
      in total_member_savings d - total_disbursed_loans d + loan_interest_earned d
           + registration_fees d + other_income - total_expenses d)"

text \<open>The financial summary of \<open>dashboard_home\<close> (dashboard/views.py, lines 106 to 178).\<close>

definition dashboard_other_income :: "db \<Rightarrow> money" where
  "dashboard_other_income d =
     sum_list (map tx_amount
       (filter (\<lambda>t. tx_type t = Income \<and> \<not> icontains (description t) ''registration''
                     \<and> \<not> icontains (description t) ''loan interest'')
         (transactions d)))
     + savings_interest_income d"

definition dashboard_total_cooperative_balance :: "db \<Rightarrow> money" where
  "dashboard_total_cooperative_balance d =
     total_member_savings d + loan_interest_earned d + registration_fees d
       + dashboard_other_income d - total_expenses d"

definition dashboard_available_balance :: "db \<Rightarrow> money" where
  "dashboard_available_balance d =
     dashboard_total_cooperative_balance d - total_outstanding_loans d"

text \<open>The shared helper \<open>calculate_cooperative_balance\<close> (transactions/views.py).\<close>

definition calculate_cooperative_balance :: "db \<Rightarrow> money" where
  "calculate_cooperative_balance d =
     (let other_income =
            sum_list (map tx_amount
              (filter (\<lambda>t. tx_type t = Income \<and> \<not> icontains (description t) ''registration''
                            \<and> \<not> icontains (description t) ''loan interest'')
                (transactions d)));
          other_income2 = other_income + savings_interest_income d
      in total_member_savings d + loan_interest_earned d + registration_fees d
           + other_income2 - total_expenses d)"

section \<open>Disbursement (loans/views.py)\<close>

definition save_loan :: "nat \<Rightarrow> loan \<Rightarrow> db \<Rightarrow> db" where
  "save_loan pk l d = d\<lparr>loans := (loans d)[pk := l]\<rparr>"

definition create_savings_transaction :: "savings_transaction \<Rightarrow> db \<Rightarrow> db" where
  "create_savings_transaction t d = d\<lparr>savings_transactions := savings_transactions d @ [t]\<rparr>"

text \<open>
  Inserting a repayment.  A repayment without a due date violates the NOT NULL
  constraint of the column: the insert raises \<open>IntegrityError\<close> (\<open>None\<close>) and writes
  nothing.
\<close>

definition create_loan_repayment :: "loan_repayment \<Rightarrow> db \<Rightarrow> db option" where
  "create_loan_repayment r d =
     (if due_date r = None then None
      else Some (d\<lparr>repayments := repayments d @ [r]\<rparr>))"

text \<open>
  \<open>set_loan_collateral(member, loan)\<close>: the member's existing savings become collateral.
  The account is read afresh; the result says whether collateral was set.
\<close>

definition set_loan_collateral :: "db \<Rightarrow> nat \<Rightarrow> nat \<Rightarrow> bool \<times> db" where
  "set_loan_collateral d m pk =
     (case get_savings_account d m of
        None \<Rightarrow> (False, d)
      | Some acc \<Rightarrow>
          if balance acc > 0 then
            (let acc1 = set_collateral acc (balance acc);
                 d1 = save_account acc1 d;
                 d2 = create_savings_transaction
                        \<lparr>st_account = m, transaction_type = Collateral,
                         st_amount = balance acc1, st_balance_before = balance acc1,
                         st_balance_after = balance acc1, st_status = Row_completed,
                         st_processed_by = None, related_loan = Some pk,
                         is_loan_repayment = False, repayment_principal = 0,
                         repayment_interest = 0\<rparr> d1
             in (True, d2))
          else (False, d))"

text \<open>
  The chart of accounts.  \<open>get_or_create\<close> looks a row up by its code and inserts it when
  there is none.  \<open>AccountCategory.name\<close> is unique: inserting a category whose name
  another category already has, raises \<open>IntegrityError\<close> (\<open>None\<close> below); the insertion
  runs in a savepoint of its own, so the enclosing transaction stays usable.
\<close>

definition get_or_create_category :: "string \<Rightarrow> string \<Rightarrow> string \<Rightarrow> db \<Rightarrow> db option" where
  "get_or_create_category code name ctype d =
     (if list_ex (\<lambda>c. cat_code c = code) (account_categories d) then Some d
      else if list_ex (\<lambda>c. cat_name c = name) (account_categories d) then None
      else Some (d\<lparr>account_categories := account_categories d
                    @ [\<lparr>cat_code = code, cat_name = name, category_type = ctype\<rparr>]\<rparr>))"

definition get_or_create_account :: "string \<Rightarrow> string \<Rightarrow> string \<Rightarrow> db \<Rightarrow> db" where
  "get_or_create_account code name category d =
     (if list_ex (\<lambda>a. acc_code a = code) (accounts d) then d
      else d\<lparr>accounts := accounts d
                @ [\<lparr>acc_code = code, acc_name = name, acc_category = category,
                    acc_balance = 0\<rparr>]\<rparr>)"

definition add_to_account :: "string \<Rightarrow> money \<Rightarrow> db \<Rightarrow> db" where
  "add_to_account code amt d =
     d\<lparr>accounts :=
         map (\<lambda>a. if acc_code a = code then a\<lparr>acc_balance := acc_balance a + amt\<rparr> else a)
           (accounts d)\<rparr>"

text \<open>
  The ledger postings of a disbursement, the body of the inner \<open>try\<close> (lines 631 to 709):
  the two accounts, the transfer transaction, its debit and credit entry, the two account
  balances.  The result is \<open>False\<close> when a step raised, with the rows written before it.
  \<open>approved\<close> is the loan's approved amount.  Only the start of the transaction's
  description is kept.
\<close>

definition disbursement_postings :: "db \<Rightarrow> loan \<Rightarrow> money \<Rightarrow> nat \<Rightarrow> bool \<times> db" where
  "disbursement_postings d l approved user =
     (case get_or_create_category ''1000'' ''Cash and Bank'' ''asset'' d of
        None \<Rightarrow> (False, d)
      | Some d1 \<Rightarrow>
          (let d2 = get_or_create_account ''COOP001'' ''Cooperative Main Account'' ''1000'' d1
           in case get_or_create_category ''1200'' ''Loans Receivable'' ''asset'' d2 of
                None \<Rightarrow> (False, d2)
              | Some d3 \<Rightarrow>
                  (let d4 = get_or_create_account ''1200'' ''Loans Receivable'' ''1200'' d3;
                       txn = length (transactions d4);
                       d5 = d4\<lparr>transactions := transactions d4
                               @ [\<lparr>tx_type = Transfer,
                                   description = ''Loan disbursement for '' @ loan_id l,
                                   tx_amount = approved, tx_status = Ledger_completed,
                                   created_by = Some user\<rparr>]\<rparr>;
                       d6 = d5\<lparr>transaction_entries := transaction_entries d5
                               @ [\<lparr>entry_transaction = txn, entry_account = ''1200'',
                                   entry_kind = Debit, entry_amount = approved\<rparr>,
                                  \<lparr>entry_transaction = txn, entry_account = ''COOP001'',
                                   entry_kind = Credit, entry_amount = approved\<rparr>]\<rparr>;
                       d7 = add_to_account ''1200'' approved d6;
                       d8 = add_to_account ''COOP001'' (- approved) d7
                   in (True, d8))))"

datatype disburse_outcome =
  Loan_not_found
  | Cannot_be_disbursed
  | Insufficient_available_balance
  | No_approved_amount
  | Error_creating_transaction_entries
  | Error_disbursing_loan
  | Disbursed_successfully

text \<open>
  A POST to \<open>disburse_loan\<close> by \<open>user\<close> at time \<open>now\<close> for the loan \<open>pk\<close>.  The body runs
  in \<open>transaction.atomic()\<close>: the block commits when it is left by a \<open>return\<close> and rolls
  back when an exception leaves it.  A missing approved amount makes the comparison of
  the pre-check raise, which the outer handler reports after the rollback.  The loan
  object keeps the balances as computed; its row holds them rounded to cents.  A failure
  of the postings is caught by the inner handler, which returns from inside the block.
\<close>

definition disburse_loan :: "db \<Rightarrow> nat \<Rightarrow> nat \<Rightarrow> nat \<Rightarrow> disburse_outcome \<times> db" where
  "disburse_loan d user now pk =
     (if pk \<ge> length (loans d) then (Loan_not_found, d)
      else
        let l = loans d ! pk in
        if status l \<noteq> Approved then (Cannot_be_disbursed, d)
        else
          case approved_amount l of
            None \<Rightarrow> (Error_disbursing_loan, d)
          | Some approved \<Rightarrow>
              if disburse_available_balance d < approved
              then (Insufficient_available_balance, d)
              else if approved = 0 then (No_approved_amount, d)
              else
                (let l1 = l\<lparr>principal_balance := approved\<rparr>;
                     l2 = l1\<lparr>interest_balance := principal_balance l1 * (10 / 100)\<rparr>;
                     l3 = l2\<lparr>total_balance := principal_balance l2 + interest_balance l2\<rparr>;
                     l4 = l3\<lparr>status := Active, disbursed_by := Some user,
                             disbursement_date := Some now\<rparr>;
                     d1 = save_loan pk (stored_loan l4) d;
                     (collateral_set, d2) = set_loan_collateral d1 (loan_member l4) pk;
                     (posted, d3) = disbursement_postings d2 l4 approved user
                 in if posted then (Disbursed_successfully, d3)
                    else (Error_creating_transaction_entries, d3)))"

section \<open>Repayment (loans/views.py)\<close>

datatype repayment_message =
  Member_has_no_active_loan
  | Invalid_deposit_amount
  | Member_has_no_savings_account
  | No_new_savings_available
  | Insufficient_new_savings
  | Repaid_to_loan_and_added_to_savings money money
  | Repaid_to_loan money
  | Added_to_savings money
  | Repaid_from_savings money bool
  | Repayment_failed

text \<open>
  \<open>process_loan_repayment_from_deposit(member, loan, amount, deposit_transaction)\<close>.
  The loan object is the row \<open>pk\<close> as the caller has read it, the deposit transaction is
  the row at position \<open>dep\<close> of the savings transactions, if there is one.  The function
  does not run in a database transaction: an exception is answered with "Repayment
  failed" and leaves what was written before it.
\<close>

definition process_loan_repayment_from_deposit ::
  "db \<Rightarrow> nat \<Rightarrow> nat \<Rightarrow> loan \<Rightarrow> money \<Rightarrow> nat option \<Rightarrow> (bool \<times> repayment_message) \<times> db" where
  "process_loan_repayment_from_deposit d m pk l amt dep =
     (case get_savings_account d m of
        None \<Rightarrow> ((False, Member_has_no_savings_account), d)
      | Some acc \<Rightarrow>
          if \<not> has_active_loan acc then ((False, Member_has_no_active_loan), d)
          else if amt \<le> 0 then ((False, Invalid_deposit_amount), d)
          else
            (let interest_remaining = interest_balance l;
                 principal_remaining = principal_balance l;
                 total_outstanding = interest_remaining + principal_remaining;
                 loan_repayment_amount = min amt total_outstanding;
                 remaining_for_savings = amt - loan_repayment_amount;
                 interest_payment = min loan_repayment_amount interest_remaining;
                 principal_payment =
                   min (loan_repayment_amount - interest_payment) principal_remaining
             in
               if loan_repayment_amount > 0 then
                 (let d1 = create_savings_transaction
                             \<lparr>st_account = m, transaction_type = Loan_repayment,
                              st_amount = loan_repayment_amount,
                              st_balance_before = balance acc,
                              st_balance_after = balance acc - loan_repayment_amount,
                              st_status = Row_completed, st_processed_by = None,
                              related_loan = Some pk, is_loan_repayment = True,
                              repayment_principal = principal_payment,
                              repayment_interest = interest_payment\<rparr> d;
                      acc1 = update_available_balance
                               (acc\<lparr>balance := balance acc - loan_repayment_amount\<rparr>);
                      d2 = save_account acc1 d1;
                      d3 = (case dep of
                              None \<Rightarrow> d2
                            | Some i \<Rightarrow>
                                (let t = savings_transactions d2 ! i in
                                 if transaction_type t \<in> {Compulsory, Voluntary}
                                 then d2\<lparr>savings_transactions := (savings_transactions d2)
                                        [i := t\<lparr>st_amount := remaining_for_savings,
                                                st_balance_after :=
                                                  st_balance_before t + remaining_for_savings\<rparr>]\<rparr>
                                 else d2));
                      l1 = l\<lparr>principal_balance := principal_balance l - principal_payment,
                             interest_balance := interest_balance l - interest_payment,
                             total_balance := total_balance l - loan_repayment_amount\<rparr>;
                      message =
                        (if remaining_for_savings > 0
                         then Repaid_to_loan_and_added_to_savings loan_repayment_amount
                                remaining_for_savings
                         else Repaid_to_loan loan_repayment_amount)
                  in
                    case create_loan_repayment
                           \<lparr>rep_loan = pk, amount = loan_repayment_amount,
                            principal_amount = principal_payment,
                            interest_amount = interest_payment,
                            balance_before = total_balance l,
                            balance_after = total_balance l - loan_repayment_amount,
                            due_date = Some Today,
                            rep_status = Row_completed, rep_processed_by = None\<rparr> d3 of
                      None \<Rightarrow> ((False, Repayment_failed), d3)
                    | Some d4 \<Rightarrow>
                        if total_balance l1 \<le> 0 then
                          ((True, message),
                           save_account (clear_collateral acc1)
                             (save_loan pk (l1\<lparr>status := Completed\<rparr>) d4))
                        else ((True, message), save_loan pk l1 d4))
               else ((True, Added_to_savings remaining_for_savings), d)))"

text \<open>
  \<open>process_loan_repayment_from_savings(member, loan, amount)\<close>, the function of lines 149
  to 232.  Its only caller is \<open>allocate_savings_to_loan\<close>, by a name that the module
  binds a second time at line 759, to a view; no request reaches this body.
\<close>

definition process_loan_repayment_from_savings ::
  "db \<Rightarrow> nat \<Rightarrow> nat \<Rightarrow> loan \<Rightarrow> money \<Rightarrow> (bool \<times> repayment_message) \<times> db" where
  "process_loan_repayment_from_savings d m pk l amt =
     (case get_savings_account d m of
        None \<Rightarrow> ((False, Member_has_no_savings_account), d)
      | Some acc \<Rightarrow>
          if \<not> has_active_loan acc then ((False, Member_has_no_active_loan), d)
          else
            (let available_for_repayment = get_loan_repayment_amount acc in
             if available_for_repayment \<le> 0 then ((False, No_new_savings_available), d)
             else
               (let repayment_amount = min amt available_for_repayment in
                if repayment_amount \<le> 0 then ((False, Insufficient_new_savings), d)
                else
                  (let interest_remaining = interest_balance l;
                       principal_remaining = principal_balance l;
                       interest_payment = min repayment_amount interest_remaining;
                       principal_payment =
                         min (repayment_amount - interest_payment) principal_remaining;
                       d1 = create_savings_transaction
                              \<lparr>st_account = m, transaction_type = Loan_repayment,
                               st_amount = repayment_amount,
                               st_balance_before = balance acc,
                               st_balance_after = balance acc - repayment_amount,
                               st_status = Row_completed, st_processed_by = None,
                               related_loan = Some pk, is_loan_repayment = True,
                               repayment_principal = principal_payment,
                               repayment_interest = interest_payment\<rparr> d;
                       acc1 = update_available_balance
                                (acc\<lparr>balance := balance acc - repayment_amount\<rparr>);
                       d2 = save_account acc1 d1;
                       l1 = l\<lparr>principal_balance := principal_balance l - principal_payment,
                              interest_balance := interest_balance l - interest_payment,
                              total_balance := total_balance l - repayment_amount\<rparr>;
                       message = Repaid_from_savings repayment_amount (interest_remaining > 0)
                   in
                     case create_loan_repayment
                            \<lparr>rep_loan = pk, amount = repayment_amount,
                             principal_amount = principal_payment,
                             interest_amount = interest_payment,
                             balance_before = total_balance l,
                             balance_after = total_balance l - repayment_amount,
                             due_date = Some Today,
                             rep_status = Row_completed, rep_processed_by = None\<rparr> d2 of
                       None \<Rightarrow> ((False, Repayment_failed), d2)
                     | Some d3 \<Rightarrow>
                         if total_balance l1 \<le> 0 then
                           ((True, message),
                            save_account (clear_collateral acc1)
                              (save_loan pk (l1\<lparr>status := Completed\<rparr>) d3))
                         else ((True, message), save_loan pk l1 d3)))))"



text \<open>
  Interest-first allocation as the specification states it, for a repayment \<open>r\<close> on a
  loan that was \<open>l\<close> before it and is \<open>l'\<close> after it.
\<close>

definition interest_first :: "loan \<Rightarrow> loan_repayment \<Rightarrow> loan \<Rightarrow> bool" where
  "interest_first l r l' =
     (interest_amount r = min (amount r) (interest_balance l)
      \<and> principal_amount r = min (amount r - interest_amount r) (principal_balance l)
      \<and> interest_balance l' = interest_balance l - interest_amount r
      \<and> principal_balance l' = principal_balance l - principal_amount r)"

text \<open>
  A repayment event: \<open>d'\<close> has exactly one repayment more than \<open>d\<close>, of the amount \<open>a\<close>
  on the loan \<open>pk\<close>, allocated interest first against the loan \<open>l\<close>, and the row of
  the loan carries the balances that remain.
\<close>

definition records_interest_first :: "loan \<Rightarrow> nat \<Rightarrow> money \<Rightarrow> db \<Rightarrow> db \<Rightarrow> bool" where
  "records_interest_first l pk a d d' =
     (repayments d' = repayments d @ [last (repayments d')]
      \<and> rep_loan (last (repayments d')) = pk
      \<and> amount (last (repayments d')) = a
      \<and> interest_first l (last (repayments d')) (loans d' ! pk))"

section \<open>Deposits (savings/forms.py, savings/views.py)\<close>

text \<open>
  \<open>Loan.objects.filter(member=member, status='active').first()\<close>.  The default ordering
  of loans is by application date, latest first; the loan table is taken to be in the
  order of application, so the first loan of the query is the last one in the table.
\<close>

definition first_active_loan :: "db \<Rightarrow> nat \<Rightarrow> nat option" where
  "first_active_loan d m =
     find (\<lambda>i. loan_member (loans d ! i) = m \<and> status (loans d ! i) = Active)
       (rev [0 ..< length (loans d)])"

datatype deposit_outcome = Deposit_form_invalid | Deposit_recorded

text \<open>
  A POST to \<open>record_deposit\<close> by \<open>user\<close>: the form is valid for an active regular member,
  one of the three deposit types and an amount above zero, and is then saved.
\<close>

definition deposit_form_valid :: "db \<Rightarrow> nat \<Rightarrow> savings_type \<Rightarrow> money \<Rightarrow> bool" where
  "deposit_form_valid d m ty amt =
     (list_ex (\<lambda>mem. member_pk mem = m \<and> membership_status mem = Member_active)
        (regular_members d)
      \<and> ty \<in> {Compulsory, Voluntary, Interest} \<and> amt > 0)"

definition record_deposit ::
  "db \<Rightarrow> nat \<Rightarrow> nat \<Rightarrow> savings_type \<Rightarrow> money \<Rightarrow> deposit_outcome \<times> db" where
  "record_deposit d user m ty amt =
     (if \<not> deposit_form_valid d m ty amt then (Deposit_form_invalid, d)
      else
        (let (acc, d0) =
               (case get_savings_account d m of
                  Some a \<Rightarrow> (a, d)
                | None \<Rightarrow>
                    (let a = \<lparr>sa_member = m, balance = 0, collateral_amount = 0,
                              available_balance = 0, has_active_loan = False\<rparr>
                     in (a, save_account a d)));
             t = \<lparr>st_account = m, transaction_type = ty, st_amount = amt,
                  st_balance_before = balance acc, st_balance_after = balance acc + amt,
                  st_status = Row_completed, st_processed_by = Some user,
                  related_loan = None, is_loan_repayment = False,
                  repayment_principal = 0, repayment_interest = 0\<rparr>;
             dep = length (savings_transactions d0);
             d1 = create_savings_transaction t d0;
             acc1 = update_available_balance (acc\<lparr>balance := st_balance_after t\<rparr>);
             d2 = save_account acc1 d1
         in
           if has_active_loan acc1 then
             (case first_active_loan d2 m of
                None \<Rightarrow> (Deposit_recorded, d2)
              | Some pk \<Rightarrow>
                  if total_balance (loans d2 ! pk) > 0
                  then (Deposit_recorded,
                        snd (process_loan_repayment_from_deposit d2 m pk (loans d2 ! pk)
                               amt (Some dep)))
                  else (Deposit_recorded, d2))
           else (Deposit_recorded, d2)))"


text \<open>
  The split of a deposit of \<open>a\<close> as the specification words it, for the loan \<open>l\<close>:
  the loan takes \<open>min a outstanding\<close>, the savings keep the rest.
\<close>

definition loan_portion :: "money \<Rightarrow> loan \<Rightarrow> money" where
  "loan_portion a l = min a (interest_balance l + principal_balance l)"

definition savings_portion :: "money \<Rightarrow> loan \<Rightarrow> money" where
  "savings_portion a l = a - loan_portion a l"


definition savings_balance :: "db \<Rightarrow> nat \<Rightarrow> money" where
  "savings_balance d m = (case get_savings_account d m of None \<Rightarrow> 0 | Some a \<Rightarrow> balance a)"



section \<open>Scenarios\<close>

text \<open>
  The member of the specification's scenarios: monthly savings of 150000, one deposit of
  200000, and a loan approved for 100000 (300000 were requested) that awaits disbursement.
\<close>

definition scenario_member :: member where
  "scenario_member =
     \<lparr>member_pk = 0, membership_status = Member_active, monthly_savings = 150000,
      registration_fee_amount = 1000, is_superuser = False, is_staff = False\<rparr>"

definition scenario_loan :: loan where
  "scenario_loan =
     \<lparr>loan_member = 0, loan_id = ''LN2025000001'', requested_amount = 300000,
      approved_amount = Some 100000, status = Approved, principal_balance = 0,
      interest_balance = 0, total_balance = 0, disbursed_by = None,
      disbursement_date = None\<rparr>"

definition scenario_db :: db where
  "scenario_db =
     \<lparr>members = [scenario_member],
      savings_accounts =
        [\<lparr>sa_member = 0, balance = 200000, collateral_amount = 0,
          available_balance = 200000, has_active_loan = False\<rparr>],
      savings_transactions =
        [\<lparr>st_account = 0, transaction_type = Compulsory, st_amount = 200000,
          st_balance_before = 0, st_balance_after = 200000, st_status = Row_completed,
          st_processed_by = Some 7, related_loan = None, is_loan_repayment = False,
          repayment_principal = 0, repayment_interest = 0\<rparr>],
      loans = [scenario_loan],
      repayments = [],
      transactions = [],
      transaction_entries = [],
      account_categories = [],
      accounts = []\<rparr>"

text \<open>The same database after user 7 has disbursed the loan at time 42.\<close>

definition scenario_active_db :: db where
  "scenario_active_db =
     \<lparr>members = [scenario_member],
      savings_accounts =
        [\<lparr>sa_member = 0, balance = 200000, collateral_amount = 200000,
          available_balance = 0, has_active_loan = True\<rparr>],
      savings_transactions =
        [\<lparr>st_account = 0, transaction_type = Compulsory, st_amount = 200000,
          st_balance_before = 0, st_balance_after = 200000, st_status = Row_completed,
          st_processed_by = Some 7, related_loan = None, is_loan_repayment = False,
          repayment_principal = 0, repayment_interest = 0\<rparr>,
         \<lparr>st_account = 0, transaction_type = Collateral, st_amount = 200000,
          st_balance_before = 200000, st_balance_after = 200000,
          st_status = Row_completed, st_processed_by = None, related_loan = Some 0,
          is_loan_repayment = False, repayment_principal = 0, repayment_interest = 0\<rparr>],
      loans =
        [scenario_loan\<lparr>status := Active, principal_balance := 100000,
           interest_balance := 10000, total_balance := 110000, disbursed_by := Some 7,
           disbursement_date := Some 42\<rparr>],
      repayments = [],
      transactions =
        [\<lparr>tx_type = Transfer, description = ''Loan disbursement for LN2025000001'',
          tx_amount = 100000, tx_status = Ledger_completed, created_by = Some 7\<rparr>],
      transaction_entries =
        [\<lparr>entry_transaction = 0, entry_account = ''1200'', entry_kind = Debit,
          entry_amount = 100000\<rparr>,
         \<lparr>entry_transaction = 0, entry_account = ''COOP001'', entry_kind = Credit,
          entry_amount = 100000\<rparr>],
      account_categories =
        [\<lparr>cat_code = ''1000'', cat_name = ''Cash and Bank'', category_type = ''asset''\<rparr>,
         \<lparr>cat_code = ''1200'', cat_name = ''Loans Receivable'', category_type = ''asset''\<rparr>],
      accounts =
        [\<lparr>acc_code = ''COOP001'', acc_name = ''Cooperative Main Account'',
          acc_category = ''1000'', acc_balance = - 100000\<rparr>,
         \<lparr>acc_code = ''1200'', acc_name = ''Loans Receivable'', acc_category = ''1200'',
          acc_balance = 100000\<rparr>]\<rparr>"




section \<open>Eligibility: proofs\<close>

lemma can_repay_iff:
  "0 < requested \<Longrightarrow>
   can_repay_within_22_months mem requested
     = (monthly_savings mem \<ge> (requested * (110 / 100)) / 22)"
  by (auto simp: can_repay_within_22_months_def Let_def field_simps)

lemma paid_percentage_iff:
  fixes b out :: rat
  assumes "0 < out"
  shows "((if b > 0 then ((b - out) / b) * 100 else 0) < 85)
           = (\<not> (b - out \<ge> (85 / 100) * b))"
proof (cases "b > 0")
  case True
  then show ?thesis by (auto simp: field_simps)
next
  case False
  with assms show ?thesis by (auto simp: field_simps)
qed

text \<open>
  C7.  For a requested amount above zero, \<open>can_apply_for_loan\<close> decides as the three
  rules of the specification do, in their order, the first failure winning: reject when
  the outstanding loan amount plus the request exceeds twice the total deposits; reject
  unless the monthly savings reach a twenty-second of 1.10 times the request; with an
  outstanding balance, reject unless at least 85% of the total borrowed has been repaid.
  The message is the one of the first rule that rejects, and the method approves exactly
  when it returns \<open>(True, "Loan application approved")\<close>.
\<close>

theorem can_apply_for_loan_rules:
  assumes "0 < requested"
  shows "fst (can_apply_for_loan d mem requested)
           = (rejecting_rule (total_deposits d (member_pk mem))
               (get_outstanding_loan_amount d (member_pk mem)) (monthly_savings mem)
               (total_borrowed_of d (member_pk mem)) requested = 0)
         \<and> message_rule (snd (can_apply_for_loan d mem requested))
           = rejecting_rule (total_deposits d (member_pk mem))
               (get_outstanding_loan_amount d (member_pk mem)) (monthly_savings mem)
               (total_borrowed_of d (member_pk mem)) requested
         \<and> (fst (can_apply_for_loan d mem requested)
              = (can_apply_for_loan d mem requested = (True, Loan_application_approved)))"
proof -
  let ?m = "member_pk mem"
  let ?out = "get_outstanding_loan_amount d ?m"
  let ?tb = "total_borrowed_of d ?m"
  let ?pp = "if ?tb > 0 then ((?tb - ?out) / ?tb) * 100 else 0"
  let ?r = "rejecting_rule (total_deposits d ?m) ?out (monthly_savings mem) ?tb requested"
  have mx: "maximum_loan_amount d ?m = 2 * total_deposits d ?m"
    by (simp add: maximum_loan_amount_def total_deposits_def split: option.split)
  note rp = can_repay_iff [OF assms, of mem]
  have unfolded: "can_apply_for_loan d mem requested =
      (if ?out + requested > 2 * total_deposits d ?m
       then (False, Total_would_exceed_maximum (2 * total_deposits d ?m))
       else if \<not> can_repay_within_22_months mem requested
       then (False, Cannot_repay_within_22_months (monthly_savings mem))
       else if ?out > 0
       then (if ?pp < 85 then (False, Must_pay_at_least_85_percent ?pp)
             else (True, Loan_application_approved))
       else (True, Loan_application_approved))"
    unfolding can_apply_for_loan_def Let_def mx total_borrowed_of_def by (rule refl)
  consider (a) "?out + requested > 2 * total_deposits d ?m"
    | (b) "\<not> ?out + requested > 2 * total_deposits d ?m" "\<not> can_repay_within_22_months mem requested"
    | (c) "\<not> ?out + requested > 2 * total_deposits d ?m" "can_repay_within_22_months mem requested" "?out > 0" "?pp < 85"
    | (d) "\<not> ?out + requested > 2 * total_deposits d ?m" "can_repay_within_22_months mem requested" "?out > 0" "\<not> ?pp < 85"
    | (e) "\<not> ?out + requested > 2 * total_deposits d ?m" "can_repay_within_22_months mem requested" "\<not> ?out > 0"
    by blast
  then show ?thesis
  proof cases
    case a
    have "can_apply_for_loan d mem requested = (False, Total_would_exceed_maximum (2 * total_deposits d ?m))"
      using a by (simp only: unfolded if_True simp_thms)
    moreover have "?r = 1" using a by (simp only: rejecting_rule_def if_True simp_thms)
    ultimately show ?thesis by simp
  next
    case b
    have "can_apply_for_loan d mem requested = (False, Cannot_repay_within_22_months (monthly_savings mem))"
      using b by (simp only: unfolded if_True if_False simp_thms)
    moreover have "?r = 2" using b rp by (simp only: rejecting_rule_def if_True if_False simp_thms)
    ultimately show ?thesis by simp
  next
    case c
    have "can_apply_for_loan d mem requested = (False, Must_pay_at_least_85_percent ?pp)"
      using c by (simp only: unfolded if_True if_False simp_thms)
    moreover have "\<not> (?tb - ?out \<ge> (85 / 100) * ?tb)"
      using paid_percentage_iff [OF c(3), of ?tb] c(4) by blast
    then have "?r = 3" using c(1,2,3) rp by (simp only: rejecting_rule_def if_True if_False not_False_eq_True simp_thms)
    ultimately show ?thesis by simp
  next
    case d
    have "can_apply_for_loan d mem requested = (True, Loan_application_approved)"
      using d by (simp only: unfolded if_True if_False simp_thms)
    moreover have "(?tb - ?out \<ge> (85 / 100) * ?tb)"
      using paid_percentage_iff [OF d(3), of ?tb] d(4) by blast
    then have "?r = 0" using d(1,2,3) rp by (simp only: rejecting_rule_def if_True if_False not_False_eq_True simp_thms)
    ultimately show ?thesis by simp
  next
    case e
    have "can_apply_for_loan d mem requested = (True, Loan_application_approved)"
      using e by (simp only: unfolded if_True if_False simp_thms)
    moreover have "?r = 0" using e rp by (simp only: rejecting_rule_def if_True if_False not_False_eq_True simp_thms)
    ultimately show ?thesis by simp
  qed
qed

theorem can_apply_for_loan_rules_witness:
  "(0::rat) < 300000
   \<and> can_apply_for_loan scenario_db scenario_member 300000 = (True, Loan_application_approved)
   \<and> rejecting_rule 200000 0 150000 100000 300000 = 0"
proof -
  have td: "total_deposits scenario_db 0 = 200000"
    by (simp add: total_deposits_def get_savings_account_def get_total_savings_def
        scenario_db_def)
  have ol: "open_loans scenario_db 0 = [scenario_loan]"
    by (simp add: open_loans_def scenario_db_def scenario_loan_def)
  have out: "get_outstanding_loan_amount scenario_db 0 = 0"
    by (simp add: get_outstanding_loan_amount_def ol outstanding_balance_def scenario_loan_def)
  have tb: "total_borrowed_of scenario_db 0 = 100000"
    by (simp add: total_borrowed_of_def ol amount_borrowed_def scenario_loan_def)
  have r: "rejecting_rule 200000 0 150000 100000 300000 = 0"
    by (simp add: rejecting_rule_def)
  have m: "member_pk scenario_member = 0" "monthly_savings scenario_member = 150000"
    by (simp_all add: scenario_member_def)
  from can_apply_for_loan_rules [of 300000 scenario_db scenario_member]
  show ?thesis by (auto simp add: td out tb r m)
qed

section \<open>Disbursement: proofs\<close>

lemma find_put_account:
  "find (\<lambda>b. sa_member b = m) (put_account a xs)
     = (if sa_member a = m then Some a else find (\<lambda>b. sa_member b = m) xs)"
  by (induction xs) auto

lemma put_account_same_balance:
  "find (\<lambda>b. sa_member b = sa_member a) xs = Some acc \<Longrightarrow> balance a = balance acc
   \<Longrightarrow> map balance (put_account a xs) = map balance xs
       \<and> map sa_member (put_account a xs) = map sa_member xs"
  by (induction xs) (auto split: if_splits)

lemma find_member: "find (\<lambda>b. sa_member b = m) xs = Some acc \<Longrightarrow> sa_member acc = m"
  by (induction xs) (auto split: if_splits)

lemma get_or_create_category_frame:
  "get_or_create_category c n t d = Some d' \<Longrightarrow>
     loans d' = loans d \<and> savings_accounts d' = savings_accounts d
     \<and> savings_transactions d' = savings_transactions d
     \<and> repayments d' = repayments d \<and> members d' = members d"
  by (auto simp: get_or_create_category_def split: if_splits)

lemma get_or_create_account_frame:
  "loans (get_or_create_account c n t d) = loans d
   \<and> savings_accounts (get_or_create_account c n t d) = savings_accounts d
   \<and> savings_transactions (get_or_create_account c n t d) = savings_transactions d
   \<and> repayments (get_or_create_account c n t d) = repayments d
   \<and> members (get_or_create_account c n t d) = members d"
  by (simp add: get_or_create_account_def)

lemma disbursement_postings_frame:
  "loans (snd (disbursement_postings d l a u)) = loans d
   \<and> savings_accounts (snd (disbursement_postings d l a u)) = savings_accounts d
   \<and> savings_transactions (snd (disbursement_postings d l a u)) = savings_transactions d
   \<and> repayments (snd (disbursement_postings d l a u)) = repayments d
   \<and> members (snd (disbursement_postings d l a u)) = members d"
  by (auto simp: disbursement_postings_def Let_def add_to_account_def
      get_or_create_account_frame
      dest!: get_or_create_category_frame split: option.splits)


lemma set_loan_collateral_balances:
  "map balance (savings_accounts (snd (set_loan_collateral d m pk)))
     = map balance (savings_accounts d)
   \<and> map sa_member (savings_accounts (snd (set_loan_collateral d m pk)))
     = map sa_member (savings_accounts d)"
proof (cases "get_savings_account d m")
  case None
  then show ?thesis by (simp add: set_loan_collateral_def)
next
  case (Some acc)
  let ?a = "set_collateral acc (balance acc)"
  have m: "sa_member ?a = sa_member acc" "balance ?a = balance acc"
    by (simp_all add: set_collateral_def update_available_balance_def)
  have f: "find (\<lambda>b. sa_member b = sa_member ?a) (savings_accounts d) = Some acc"
    using Some find_member [of m "savings_accounts d" acc]
    by (simp add: get_savings_account_def m)
  from put_account_same_balance [OF f m(2)] Some show ?thesis
    by (simp add: set_loan_collateral_def Let_def save_account_def
        create_savings_transaction_def)
qed

lemma set_loan_collateral_transactions:
  "take (length (savings_transactions d)) (savings_transactions (snd (set_loan_collateral d m pk)))
     = savings_transactions d
   \<and> list_all (\<lambda>t. transaction_type t = Collateral \<and> st_balance_before t = st_balance_after t
                 \<and> st_account t = m)
       (drop (length (savings_transactions d))
          (savings_transactions (snd (set_loan_collateral d m pk))))"
  by (simp add: set_loan_collateral_def Let_def save_account_def
      create_savings_transaction_def split: option.split)

lemma find_map_balance:
  "map sa_member xs = map sa_member ys \<Longrightarrow> map balance xs = map balance ys
   \<Longrightarrow> map_option balance (find (\<lambda>b. sa_member b = m) xs)
       = map_option balance (find (\<lambda>b. sa_member b = m) ys)"
proof (induction xs arbitrary: ys)
  case Nil
  then show ?case by simp
next
  case (Cons x xs)
  then obtain y ys' where ys: "ys = y # ys'" by (cases ys) auto
  with Cons show ?case by auto
qed

lemmas disburse_defs =
  disburse_loan_def disburse_available_balance_def total_member_savings_def
  total_disbursed_loans_def loan_interest_earned_def registration_fees_def
  regular_members_def total_expenses_def save_loan_def set_loan_collateral_def
  get_savings_account_def set_collateral_def update_available_balance_def
  save_account_def create_savings_transaction_def disbursement_postings_def
  get_or_create_category_def get_or_create_account_def add_to_account_def
  stored_loan_def quantize_def round_half_even_def

lemma disburse_loan_cases:
  "snd (disburse_loan d user now pk) = d
   \<or> (\<exists>l l' a m. snd (disburse_loan d user now pk)
          = snd (disbursement_postings
                  (snd (set_loan_collateral (save_loan pk l d) m pk)) l' a user))"
  by (auto simp: disburse_loan_def Let_def case_prod_beta split: option.splits)

lemma scenario_disbursed: "disburse_loan scenario_db 7 42 0 = (Disbursed_successfully, scenario_active_db)"
  by (simp add: disburse_defs scenario_db_def scenario_active_db_def scenario_loan_def
      scenario_member_def Let_def)










text \<open>
  C4.  No disbursement, whatever its outcome, changes the balance of a savings account:
  every account keeps its member and its balance (collateral, available balance and the
  active-loan flag are the only fields that can change), and the only savings
  transactions a disbursement adds are of type collateral with
  \<open>balance_before = balance_after\<close>.
\<close>

theorem disburse_loan_savings_unchanged:
  "map_option balance (get_savings_account (snd (disburse_loan d user now pk)) m)
     = map_option balance (get_savings_account d m)
   \<and> map balance (savings_accounts (snd (disburse_loan d user now pk)))
     = map balance (savings_accounts d)
   \<and> map sa_member (savings_accounts (snd (disburse_loan d user now pk)))
     = map sa_member (savings_accounts d)
   \<and> take (length (savings_transactions d))
        (savings_transactions (snd (disburse_loan d user now pk)))
     = savings_transactions d
   \<and> list_all (\<lambda>t. transaction_type t = Collateral \<and> st_balance_before t = st_balance_after t)
       (drop (length (savings_transactions d))
          (savings_transactions (snd (disburse_loan d user now pk))))"
proof -
  let ?d' = "snd (disburse_loan d user now pk)"
  from disburse_loan_cases [of d user now pk]
  have both: "(map balance (savings_accounts ?d') = map balance (savings_accounts d)
      \<and> map sa_member (savings_accounts ?d') = map sa_member (savings_accounts d))
    \<and> (take (length (savings_transactions d)) (savings_transactions ?d')
      = savings_transactions d
    \<and> list_all (\<lambda>t. transaction_type t = Collateral \<and> st_balance_before t = st_balance_after t)
       (drop (length (savings_transactions d)) (savings_transactions ?d')))"
  proof
    assume "?d' = d"
    then show ?thesis by simp
  next
    assume "\<exists>l l' a m. ?d' = snd (disbursement_postings
          (snd (set_loan_collateral (save_loan pk l d) m pk)) l' a user)"
    then obtain l l' a m where "?d' = snd (disbursement_postings
          (snd (set_loan_collateral (save_loan pk l d) m pk)) l' a user)"
      by blast
    then show ?thesis
      using set_loan_collateral_balances [of "save_loan pk l d" m pk]
        set_loan_collateral_transactions [of "save_loan pk l d" m pk]
      by (simp add: disbursement_postings_frame save_loan_def list_all_iff)
  qed
  then have "map_option balance (get_savings_account ?d' m)
     = map_option balance (get_savings_account d m)"
    unfolding get_savings_account_def by (intro find_map_balance) simp_all
  with both show ?thesis by simp
qed

theorem disburse_loan_savings_unchanged_witness:
  "map_option balance (get_savings_account scenario_db 0) = Some 200000
   \<and> map_option balance (get_savings_account (snd (disburse_loan scenario_db 7 42 0)) 0)
       = Some 200000
   \<and> map_option collateral_amount
         (get_savings_account (snd (disburse_loan scenario_db 7 42 0)) 0) = Some 200000
   \<and> map_option has_active_loan
         (get_savings_account (snd (disburse_loan scenario_db 7 42 0)) 0) = Some True"
proof -
  have before: "map_option balance (get_savings_account scenario_db 0) = Some 200000"
    by (simp add: get_savings_account_def scenario_db_def)
  have after: "get_savings_account (snd (disburse_loan scenario_db 7 42 0)) 0
      = Some \<lparr>sa_member = 0, balance = 200000, collateral_amount = 200000,
               available_balance = 0, has_active_loan = True\<rparr>"
    by (simp add: scenario_disbursed get_savings_account_def scenario_active_db_def)
  from disburse_loan_savings_unchanged [of scenario_db 7 42 0 0] before after
  show ?thesis by simp
qed

section \<open>Disbursement: a failure of the ledger postings\<close>

text \<open>
  C8.  A failure of the ledger postings does not undo the disbursement.  With an
  account category named "Loans Receivable" under another code than 1200, creating the
  category of the loan account raises; the view reports "Error creating transaction
  entries" from inside the atomic block, which commits: the loan is active with its
  balances set, and no transaction and no entry has been written.
\<close>

theorem failed_postings_leave_loan_disbursed:
  "fst (disburse_loan
          (scenario_db\<lparr>account_categories :=
             [\<lparr>cat_code = ''12'', cat_name = ''Loans Receivable'', category_type = ''asset''\<rparr>]\<rparr>)
          7 42 0) = Error_creating_transaction_entries
   \<and> loans (snd (disburse_loan
          (scenario_db\<lparr>account_categories :=
             [\<lparr>cat_code = ''12'', cat_name = ''Loans Receivable'', category_type = ''asset''\<rparr>]\<rparr>)
          7 42 0))
       = [scenario_loan\<lparr>status := Active, principal_balance := 100000,
            interest_balance := 10000, total_balance := 110000, disbursed_by := Some 7,
            disbursement_date := Some 42\<rparr>]
   \<and> transactions (snd (disburse_loan
          (scenario_db\<lparr>account_categories :=
             [\<lparr>cat_code = ''12'', cat_name = ''Loans Receivable'', category_type = ''asset''\<rparr>]\<rparr>)
          7 42 0)) = []
   \<and> transaction_entries (snd (disburse_loan
          (scenario_db\<lparr>account_categories :=
             [\<lparr>cat_code = ''12'', cat_name = ''Loans Receivable'', category_type = ''asset''\<rparr>]\<rparr>)
          7 42 0)) = []"
  by (simp add: disburse_defs scenario_db_def scenario_loan_def scenario_member_def Let_def)

section \<open>Repayment: proofs\<close>

lemma get_savings_account_member:
  "get_savings_account d m = Some acc \<Longrightarrow> sa_member acc = m"
  unfolding get_savings_account_def by (rule find_member)

lemmas deposit_path_defs =
  process_loan_repayment_from_deposit_def create_savings_transaction_def
  create_loan_repayment_def save_loan_def save_account_def




text \<open>
  The body of lines 149 to 232, which no caller reaches, allocates interest first as
  well; its amount is capped at the savings above the collateral, not at what the loan
  owes.
\<close>

lemma savings_interest_first:
  assumes "pk < length (loans d)" and "get_savings_account d m = Some acc"
    and "has_active_loan acc" and "0 < amt"
    and "0 < balance acc - collateral_amount acc"
  shows "records_interest_first l pk (min amt (balance acc - collateral_amount acc)) d
           (snd (process_loan_repayment_from_savings d m pk l amt))"
proof -
  have av: "get_loan_repayment_amount acc = balance acc - collateral_amount acc"
    using assms(3,5) by (simp add: get_loan_repayment_amount_def)
  have pos: "\<not> balance acc - collateral_amount acc \<le> 0"
    "\<not> min amt (balance acc - collateral_amount acc) \<le> 0"
    using assms(4,5) by simp_all
  show ?thesis
    using assms(1,2,3) pos
    by (simp add: process_loan_repayment_from_savings_def av
        create_savings_transaction_def create_loan_repayment_def save_loan_def
        save_account_def Let_def interest_first_def records_interest_first_def
        del: min_less_iff_conj not_le)
qed




lemma deposit_keeps_balances_positive:
  assumes "pk < length (loans d)" and "0 \<le> principal_balance l" and "0 \<le> interest_balance l"
    and "loans (snd (process_loan_repayment_from_deposit d m pk l amt dep)) \<noteq> loans d"
  shows "0 \<le> principal_balance
                (loans (snd (process_loan_repayment_from_deposit d m pk l amt dep)) ! pk)
       \<and> 0 \<le> interest_balance
                (loans (snd (process_loan_repayment_from_deposit d m pk l amt dep)) ! pk)"
  using assms
  by (auto simp: deposit_path_defs Let_def min_def split: option.splits if_splits)







section \<open>Deposits: proofs\<close>


lemma get_save_account:
  "get_savings_account (save_account a d) m
     = (if sa_member a = m then Some a else get_savings_account d m)"
  by (simp add: get_savings_account_def save_account_def find_put_account)

lemma get_create_savings_transaction:
  "get_savings_account (create_savings_transaction t d) m = get_savings_account d m"
  by (simp add: get_savings_account_def create_savings_transaction_def)

lemma frame_save_account:
  "loans (save_account a d) = loans d" "repayments (save_account a d) = repayments d"
  "members (save_account a d) = members d"
  "savings_transactions (save_account a d) = savings_transactions d"
  by (simp_all add: save_account_def)

lemma frame_create_savings_transaction:
  "loans (create_savings_transaction t d) = loans d"
  "repayments (create_savings_transaction t d) = repayments d"
  "members (create_savings_transaction t d) = members d"
  "savings_transactions (create_savings_transaction t d) = savings_transactions d @ [t]"
  by (simp_all add: create_savings_transaction_def)






lemma first_active_loan_frame:
  "first_active_loan (save_account a d) m = first_active_loan d m"
  "first_active_loan (create_savings_transaction t d) m = first_active_loan d m"
  by (simp_all add: first_active_loan_def frame_save_account frame_create_savings_transaction)

lemma find_Some_in_set: "find P xs = Some x \<Longrightarrow> x \<in> set xs \<and> P x"
  by (induction xs) (auto split: if_splits)

lemma first_active_loan_Some:
  assumes "first_active_loan d m = Some pk"
  shows "pk < length (loans d) \<and> loan_member (loans d ! pk) = m
         \<and> status (loans d ! pk) = Active"
  using find_Some_in_set [OF assms [unfolded first_active_loan_def]] by simp

text \<open>A deposit by a flagged member is handed to the auto-repayment.\<close>

lemma record_deposit_flagged:
  assumes "deposit_form_valid d m ty amt" and "get_savings_account d m = Some acc"
    and "has_active_loan acc" and "first_active_loan d m = Some pk"
    and "0 < total_balance (loans d ! pk)"
  shows "record_deposit d user m ty amt =
     (Deposit_recorded,
      snd (process_loan_repayment_from_deposit
            (save_account
               (acc\<lparr>balance := balance acc + amt,
                    available_balance := balance acc + amt - collateral_amount acc\<rparr>)
               (create_savings_transaction
                  \<lparr>st_account = m, transaction_type = ty, st_amount = amt,
                   st_balance_before = balance acc, st_balance_after = balance acc + amt,
                   st_status = Row_completed, st_processed_by = Some user,
                   related_loan = None, is_loan_repayment = False,
                   repayment_principal = 0, repayment_interest = 0\<rparr> d))
            m pk (loans d ! pk) amt (Some (length (savings_transactions d)))))"
  using assms
  by (simp add: record_deposit_def Let_def update_available_balance_def
      first_active_loan_frame frame_save_account frame_create_savings_transaction)


text \<open>
  What the auto-repayment leaves of a deposit.  The row of the deposit is rewritten when
  its type is compulsory or voluntary and a repayment is made, and is left as it is
  otherwise; the balance is reduced by the loan portion whatever the type.
\<close>

lemma deposit_split:
  assumes acc1: "get_savings_account d2 m = Some acc1" "has_active_loan acc1"
    and amt: "0 < amt"
    and rows: "savings_transactions d2 = old @ [t]"
    and t: "st_amount t = amt" "st_balance_after t = st_balance_before t + amt"
    and out: "0 \<le> interest_balance l + principal_balance l"
  shows "savings_transactions
           (snd (process_loan_repayment_from_deposit d2 m pk l amt (Some (length old))))
         = old @ ((if transaction_type t \<in> {Compulsory, Voluntary}
                   then t\<lparr>st_amount := savings_portion amt l,
                          st_balance_after := st_balance_before t + savings_portion amt l\<rparr>
                   else t)
                  # (if 0 < loan_portion amt l
                     then [\<lparr>st_account = m, transaction_type = Loan_repayment,
                            st_amount = loan_portion amt l,
                            st_balance_before = balance acc1,
                            st_balance_after = balance acc1 - loan_portion amt l,
                            st_status = Row_completed, st_processed_by = None,
                            related_loan = Some pk, is_loan_repayment = True,
                            repayment_principal =
                              min (loan_portion amt l - min (loan_portion amt l) (interest_balance l))
                                (principal_balance l),
                            repayment_interest = min (loan_portion amt l) (interest_balance l)\<rparr>]
                     else []))
       \<and> savings_balance
           (snd (process_loan_repayment_from_deposit d2 m pk l amt (Some (length old)))) m
         = balance acc1 - loan_portion amt l"
proof (cases "0 < loan_portion amt l")
  case False
  with amt out have z: "loan_portion amt l = 0"
    by (simp add: loan_portion_def min_def split: if_splits)
  then have lp: "\<not> 0 < min amt (interest_balance l + principal_balance l)"
    "min amt (interest_balance l + principal_balance l) = 0"
    by (simp_all add: loan_portion_def)
  have same: "snd (process_loan_repayment_from_deposit d2 m pk l amt (Some (length old))) = d2"
    using acc1 amt lp(1)
    by (simp add: process_loan_repayment_from_deposit_def Let_def del: min_less_iff_conj)
  have t_same: "t\<lparr>st_amount := amt, st_balance_after := st_balance_before t + amt\<rparr> = t"
    using t by simp
  show ?thesis
    using acc1(1)
    by (simp add: same rows z savings_portion_def savings_balance_def t_same)
next
  case True
  then have lp: "0 < min amt (interest_balance l + principal_balance l)"
    by (simp add: loan_portion_def)
  have member: "sa_member acc1 = m" using acc1(1) by (rule get_savings_account_member)
  show ?thesis
  proof (cases "transaction_type t \<in> {Compulsory, Voluntary}")
    case rewritten: True
    show ?thesis
      using acc1 amt lp rewritten True
      by (simp add: process_loan_repayment_from_deposit_def Let_def rows
          create_savings_transaction_def create_loan_repayment_def save_loan_def
          save_account_def savings_balance_def get_savings_account_def find_put_account
          member clear_collateral_def update_available_balance_def
          loan_portion_def savings_portion_def
          del: min_less_iff_conj)
  next
    case kept: False
    show ?thesis
      using acc1 amt lp kept True
      by (simp add: process_loan_repayment_from_deposit_def Let_def rows
          create_savings_transaction_def create_loan_repayment_def save_loan_def
          save_account_def savings_balance_def get_savings_account_def find_put_account
          member clear_collateral_def update_available_balance_def
          loan_portion_def savings_portion_def
          del: min_less_iff_conj)
  qed
qed

lemma scenario_active_facts:
  "deposit_form_valid scenario_active_db 0 Voluntary 50000"
  "deposit_form_valid scenario_active_db 0 Interest 50000"
  "get_savings_account scenario_active_db 0
     = Some \<lparr>sa_member = 0, balance = 200000, collateral_amount = 200000,
              available_balance = 0, has_active_loan = True\<rparr>"
  "first_active_loan scenario_active_db 0 = Some 0"
  "total_balance (loans scenario_active_db ! 0) = 110000"
  "interest_balance (loans scenario_active_db ! 0) = 10000"
  "principal_balance (loans scenario_active_db ! 0) = 100000"
  by (simp_all add: deposit_form_valid_def regular_members_def get_savings_account_def
      first_active_loan_def scenario_active_db_def scenario_member_def scenario_loan_def)

text \<open>
  C5 (as amended).  A deposit of \<open>amt\<close> by a member whose account is flagged, whose
  latest active loan has a total balance above zero and an outstanding amount
  \<open>interest_balance + principal_balance\<close> that is not negative, is split: with
  \<open>loan_portion = min amt outstanding\<close> and \<open>savings_portion = amt - loan_portion\<close>, the
  savings balance grows by exactly the savings portion, and one transaction of type loan
  repayment, of the loan portion, follows the deposit's transaction exactly when the
  loan portion is above zero.  The transaction of a compulsory or voluntary deposit is
  left with the amount \<open>savings_portion\<close> and
  \<open>balance_after = balance_before + savings_portion\<close>; the transaction of a deposit of
  type interest is not rewritten and keeps the amount \<open>amt\<close> and
  \<open>balance_after = balance_before + amt\<close>.
\<close>

theorem deposit_is_split:
  assumes "deposit_form_valid d m ty amt"
    and "get_savings_account d m = Some acc" and "has_active_loan acc"
    and "first_active_loan d m = Some pk" and "0 < total_balance (loans d ! pk)"
    and "0 \<le> interest_balance (loans d ! pk) + principal_balance (loans d ! pk)"
  shows "savings_balance (snd (record_deposit d user m ty amt)) m
           = balance acc + savings_portion amt (loans d ! pk)
       \<and> savings_transactions (snd (record_deposit d user m ty amt))
           = savings_transactions d
             @ (\<lparr>st_account = m, transaction_type = ty,
                  st_amount = (if ty = Interest then amt
                               else savings_portion amt (loans d ! pk)),
                  st_balance_before = balance acc,
                  st_balance_after =
                    balance acc + (if ty = Interest then amt
                                   else savings_portion amt (loans d ! pk)),
                  st_status = Row_completed, st_processed_by = Some user,
                  related_loan = None, is_loan_repayment = False,
                  repayment_principal = 0, repayment_interest = 0\<rparr>
                # (if 0 < loan_portion amt (loans d ! pk)
                   then [\<lparr>st_account = m, transaction_type = Loan_repayment,
                          st_amount = loan_portion amt (loans d ! pk),
                          st_balance_before = balance acc + amt,
                          st_balance_after = balance acc + amt - loan_portion amt (loans d ! pk),
                          st_status = Row_completed, st_processed_by = None,
                          related_loan = Some pk, is_loan_repayment = True,
                          repayment_principal =
                            min (loan_portion amt (loans d ! pk)
                                  - min (loan_portion amt (loans d ! pk))
                                      (interest_balance (loans d ! pk)))
                              (principal_balance (loans d ! pk)),
                          repayment_interest =
                            min (loan_portion amt (loans d ! pk))
                              (interest_balance (loans d ! pk))\<rparr>]
                   else []))"
proof -
  let ?l = "loans d ! pk"
  let ?t = "\<lparr>st_account = m, transaction_type = ty, st_amount = amt,
             st_balance_before = balance acc, st_balance_after = balance acc + amt,
             st_status = Row_completed, st_processed_by = Some user,
             related_loan = None, is_loan_repayment = False,
             repayment_principal = 0, repayment_interest = 0\<rparr>"
  let ?acc1 = "acc\<lparr>balance := balance acc + amt,
                    available_balance := balance acc + amt - collateral_amount acc\<rparr>"
  let ?d2 = "save_account ?acc1 (create_savings_transaction ?t d)"
  have amt: "0 < amt" using assms(1) by (simp add: deposit_form_valid_def)
  have ty: "ty = Compulsory \<or> ty = Voluntary \<or> ty = Interest"
    using assms(1) by (simp add: deposit_form_valid_def)
  have m: "sa_member acc = m" using assms(2) by (rule get_savings_account_member)
  have g: "get_savings_account ?d2 m = Some ?acc1"
    by (simp add: get_save_account m)
  have f: "has_active_loan ?acc1" using assms(3) by simp
  have rows: "savings_transactions ?d2 = savings_transactions d @ [?t]"
    by (simp add: frame_save_account frame_create_savings_transaction)
  have t: "st_amount ?t = amt" "st_balance_after ?t = st_balance_before ?t + amt"
    by simp_all
  note split = deposit_split [OF g f amt rows t assms(6), of pk]
  have step: "snd (record_deposit d user m ty amt)
      = snd (process_loan_repayment_from_deposit ?d2 m pk ?l amt
               (Some (length (savings_transactions d))))"
    by (simp only: record_deposit_flagged [OF assms(1,2,3,4,5)] snd_conv)
  from ty show ?thesis
  proof (elim disjE)
    assume "ty = Compulsory"
    then show ?thesis unfolding step using split by (simp add: savings_portion_def)
  next
    assume "ty = Voluntary"
    then show ?thesis unfolding step using split by (simp add: savings_portion_def)
  next
    assume "ty = Interest"
    then show ?thesis unfolding step using split by (simp add: savings_portion_def)
  qed
qed

theorem deposit_is_split_witness:
  "deposit_form_valid scenario_active_db 0 Voluntary 50000
   \<and> deposit_form_valid scenario_active_db 0 Interest 50000
   \<and> first_active_loan scenario_active_db 0 = Some 0
   \<and> loan_portion 50000 (loans scenario_active_db ! 0) = 50000
   \<and> savings_portion 50000 (loans scenario_active_db ! 0) = 0
   \<and> savings_balance (snd (record_deposit scenario_active_db 7 0 Voluntary 50000)) 0 = 200000
   \<and> drop (length (savings_transactions scenario_active_db))
        (savings_transactions (snd (record_deposit scenario_active_db 7 0 Voluntary 50000)))
       = [\<lparr>st_account = 0, transaction_type = Voluntary, st_amount = 0,
           st_balance_before = 200000, st_balance_after = 200000,
           st_status = Row_completed, st_processed_by = Some 7, related_loan = None,
           is_loan_repayment = False, repayment_principal = 0, repayment_interest = 0\<rparr>,
          \<lparr>st_account = 0, transaction_type = Loan_repayment, st_amount = 50000,
           st_balance_before = 250000, st_balance_after = 200000,
           st_status = Row_completed, st_processed_by = None, related_loan = Some 0,
           is_loan_repayment = True, repayment_principal = 40000,
           repayment_interest = 10000\<rparr>]
   \<and> savings_balance (snd (record_deposit scenario_active_db 7 0 Interest 50000)) 0 = 200000
   \<and> drop (length (savings_transactions scenario_active_db))
        (savings_transactions (snd (record_deposit scenario_active_db 7 0 Interest 50000)))
       = [\<lparr>st_account = 0, transaction_type = Interest, st_amount = 50000,
           st_balance_before = 200000, st_balance_after = 250000,
           st_status = Row_completed, st_processed_by = Some 7, related_loan = None,
           is_loan_repayment = False, repayment_principal = 0, repayment_interest = 0\<rparr>,
          \<lparr>st_account = 0, transaction_type = Loan_repayment, st_amount = 50000,
           st_balance_before = 250000, st_balance_after = 200000,
           st_status = Row_completed, st_processed_by = None, related_loan = Some 0,
           is_loan_repayment = True, repayment_principal = 40000,
           repayment_interest = 10000\<rparr>]"
proof -
  have flag: "has_active_loan \<lparr>sa_member = 0, balance = 200000, collateral_amount = 200000,
              available_balance = 0, has_active_loan = True\<rparr>" by simp
  have tb: "0 < total_balance (loans scenario_active_db ! 0)"
    "0 \<le> interest_balance (loans scenario_active_db ! 0)
          + principal_balance (loans scenario_active_db ! 0)"
    by (simp_all add: scenario_active_facts)
  have lp: "loan_portion 50000 (loans scenario_active_db ! 0) = 50000"
    "savings_portion 50000 (loans scenario_active_db ! 0) = 0"
    by (simp_all add: loan_portion_def savings_portion_def scenario_active_facts)
  from deposit_is_split [OF scenario_active_facts(1) scenario_active_facts(3) flag
      scenario_active_facts(4) tb, of 7]
    deposit_is_split [OF scenario_active_facts(2) scenario_active_facts(3) flag
      scenario_active_facts(4) tb, of 7]
  show ?thesis
    by (simp add: lp scenario_active_facts)
qed

text \<open>
  C5 as stated fails for a deposit of type interest, which the deposit form offers too:
  the balance is split in the same way, but the deposit's transaction is not rewritten.
  For 50000 deposited against the loan that owes 110000 the savings portion is 0, and the
  transaction keeps the amount 50000 and the balance after of 250000.
\<close>

theorem interest_deposit_keeps_full_amount:
  "deposit_form_valid scenario_active_db 0 Interest 50000
   \<and> map_option has_active_loan (get_savings_account scenario_active_db 0) = Some True
   \<and> first_active_loan scenario_active_db 0 = Some 0
   \<and> 0 < interest_balance (loans scenario_active_db ! 0)
         + principal_balance (loans scenario_active_db ! 0)
   \<and> savings_portion 50000 (loans scenario_active_db ! 0) = 0
   \<and> savings_balance (snd (record_deposit scenario_active_db 7 0 Interest 50000)) 0 = 200000
   \<and> st_amount (savings_transactions
         (snd (record_deposit scenario_active_db 7 0 Interest 50000)) ! 2) = 50000
   \<and> st_balance_after (savings_transactions
         (snd (record_deposit scenario_active_db 7 0 Interest 50000)) ! 2) = 250000"
proof -
  have flag: "has_active_loan \<lparr>sa_member = 0, balance = 200000, collateral_amount = 200000,
              available_balance = 0, has_active_loan = True\<rparr>" by simp
  have tb: "0 < total_balance (loans scenario_active_db ! 0)"
    by (simp add: scenario_active_facts)
  have sp: "savings_portion 50000 (loans scenario_active_db ! 0) = 0"
    by (simp add: loan_portion_def savings_portion_def scenario_active_facts)
  have l: "loans scenario_active_db ! 0
      = scenario_loan\<lparr>status := Active, principal_balance := 100000,
           interest_balance := 10000, total_balance := 110000, disbursed_by := Some 7,
           disbursement_date := Some 42\<rparr>"
    by (simp add: scenario_active_db_def)
  have run: "savings_transactions (snd (record_deposit scenario_active_db 7 0 Interest 50000)) ! 2
      = \<lparr>st_account = 0, transaction_type = Interest, st_amount = 50000,
           st_balance_before = 200000, st_balance_after = 250000,
           st_status = Row_completed, st_processed_by = Some 7, related_loan = None,
           is_loan_repayment = False, repayment_principal = 0, repayment_interest = 0\<rparr>"
    "savings_balance (snd (record_deposit scenario_active_db 7 0 Interest 50000)) 0 = 200000"
    unfolding record_deposit_flagged [OF scenario_active_facts(2,3) flag
        scenario_active_facts(4) tb] snd_conv l
    by (simp_all add: deposit_path_defs Let_def get_savings_account_def
        update_available_balance_def savings_balance_def scenario_active_db_def
        scenario_loan_def)
  show ?thesis
    by (simp add: scenario_active_facts sp run)
qed






section \<open>Cooperative balance: the call sites compared\<close>

lemmas balance_defs =
  disburse_available_balance_def dashboard_available_balance_def
  dashboard_total_cooperative_balance_def dashboard_other_income_def
  calculate_cooperative_balance_def total_member_savings_def total_disbursed_loans_def
  total_outstanding_loans_def loan_interest_earned_def registration_fees_def
  regular_members_def total_expenses_def savings_interest_income_def

text \<open>
  The shared helper returns the total cooperative balance, before anything is subtracted
  for loans: for every database it is the total of the dashboard.
\<close>

lemma helper_is_dashboard_total:
  "calculate_cooperative_balance d = dashboard_total_cooperative_balance d"
  by (simp add: calculate_cooperative_balance_def dashboard_total_cooperative_balance_def
      dashboard_other_income_def Let_def)

text \<open>
  The pre-check and the dashboard agree as long as every active loan still owes its
  whole approved amount, no income is described as loan interest and no savings interest
  has been credited.
\<close>

lemma scenario_active_balances:
  "disburse_available_balance scenario_active_db = 101000
   \<and> dashboard_available_balance scenario_active_db = 101000
   \<and> calculate_cooperative_balance scenario_active_db = 201000"
  by (simp add: balance_defs scenario_active_db_def scenario_loan_def
      scenario_member_def Let_def)

text \<open>The scenario after a voluntary deposit of 70000, all of which goes to the loan.\<close>

lemma scenario_deposit_70000:
  "record_deposit scenario_active_db 7 0 Voluntary 70000
     = (Deposit_recorded,
        scenario_active_db
          \<lparr>savings_transactions := savings_transactions scenario_active_db
             @ [\<lparr>st_account = 0, transaction_type = Voluntary, st_amount = 0,
                 st_balance_before = 200000, st_balance_after = 200000,
                 st_status = Row_completed, st_processed_by = Some 7, related_loan = None,
                 is_loan_repayment = False, repayment_principal = 0,
                 repayment_interest = 0\<rparr>,
                \<lparr>st_account = 0, transaction_type = Loan_repayment, st_amount = 70000,
                 st_balance_before = 270000, st_balance_after = 200000,
                 st_status = Row_completed, st_processed_by = None, related_loan = Some 0,
                 is_loan_repayment = True, repayment_principal = 60000,
                 repayment_interest = 10000\<rparr>],
           loans := [scenario_loan\<lparr>status := Active, principal_balance := 40000,
                      interest_balance := 0, total_balance := 40000,
                      disbursed_by := Some 7, disbursement_date := Some 42\<rparr>],
           repayments := [\<lparr>rep_loan = 0, amount = 70000, principal_amount = 60000,
                           interest_amount = 10000, balance_before = 110000,
                           balance_after = 40000, due_date = Some Today,
                           rep_status = Row_completed, rep_processed_by = None\<rparr>]\<rparr>)"
proof -
  have v: "deposit_form_valid scenario_active_db 0 Voluntary 70000"
    by (simp add: deposit_form_valid_def regular_members_def scenario_active_db_def
        scenario_member_def)
  have flag: "has_active_loan \<lparr>sa_member = 0, balance = 200000, collateral_amount = 200000,
              available_balance = 0, has_active_loan = True\<rparr>" by simp
  have tb: "0 < total_balance (loans scenario_active_db ! 0)"
    by (simp add: scenario_active_facts)
  show ?thesis
    unfolding record_deposit_flagged [OF v scenario_active_facts(3) flag
        scenario_active_facts(4) tb]
    by (simp add: deposit_path_defs Let_def get_savings_account_def
        update_available_balance_def scenario_active_db_def scenario_loan_def)
qed

text \<open>
  C1.  The call sites do not compute one figure.  After the scenario's loan has been
  disbursed and the member has deposited 70000, which repays 10000 of interest and 60000
  of principal, the pre-check of the disbursement, which subtracts the approved amounts
  of the active loans, finds 111000 available; the dashboard, which subtracts their
  outstanding principal, finds 171000.  The shared helper returns 211000, the total of
  the dashboard, from which nothing is subtracted for loans.
\<close>

theorem cooperative_balance_call_sites_differ:
  "disburse_available_balance (snd (record_deposit scenario_active_db 7 0 Voluntary 70000))
     = 111000
   \<and> dashboard_available_balance (snd (record_deposit scenario_active_db 7 0 Voluntary 70000))
     = 171000
   \<and> calculate_cooperative_balance (snd (record_deposit scenario_active_db 7 0 Voluntary 70000))
     = 211000
   \<and> dashboard_total_cooperative_balance
       (snd (record_deposit scenario_active_db 7 0 Voluntary 70000))
     = 211000"
  unfolding scenario_deposit_70000 snd_conv
  by (simp add: balance_defs scenario_active_db_def scenario_loan_def
      scenario_member_def Let_def)

end
